theory Spec2Isabelle
  imports Main "HOL-Library.AList"
begin

section \<open>Python values, errors and text\<close>

text \<open>
  Every way a call of the helper module can end without a value is a constructor of
  \<open>error\<close>: \<open>exit()\<close> and \<open>exit(n)\<close> raise \<open>SystemExit\<close> with no code or
  with the code \<open>n\<close>; the other constructors are the exceptions the modelled statements raise.
\<close>

datatype error =
    SystemExit "int option"
  | AttributeError
  | UnboundLocalError
  | KeyError string
  | IndexError
  | ValueError
  | FileNotFoundError
  | IsADirectoryError
  | NotADirectoryError
  | ClientError

text \<open>
  The status the operating system sees: \<open>SystemExit\<close> without a code is success (0),
  with a code it is that code, and an uncaught exception ends the interpreter with status 1.
\<close>

fun exit_status :: "error \<Rightarrow> int" where
  "exit_status (SystemExit None) = 0"
| "exit_status (SystemExit (Some n)) = n"
| "exit_status _ = 1"

text \<open>
  The values that the modelled functions return or store in attributes: a string, a list of
  strings, an integer, \<open>None\<close>, a boolean, and an open file object (by its path).
\<close>

datatype pyval =
    PStr string
  | PList "string list"
  | PInt int
  | PNone
  | PBool bool
  | PFile string

fun py_len :: "pyval \<Rightarrow> nat" where
  "py_len (PStr s) = length s"
| "py_len (PList xs) = length xs"
| "py_len _ = 0"

fun truthy :: "pyval \<Rightarrow> bool" where
  "truthy (PStr s) = (s \<noteq> [])"
| "truthy (PList xs) = (xs \<noteq> [])"
| "truthy (PInt n) = (n \<noteq> 0)"
| "truthy PNone = False"
| "truthy (PBool b) = b"
| "truthy (PFile p) = True"

definition and_then :: "error + 'a \<Rightarrow> ('a \<Rightarrow> error + 'b) \<Rightarrow> error + 'b" where
  "and_then m f = (case m of Inl e \<Rightarrow> Inl e | Inr x \<Rightarrow> f x)"

text \<open>
  A \<open>char\<close> stands for a code point below 256. \<open>whitespace\<close> is the set of those
  code points that \<open>str.strip\<close> removes: tab to carriage return, the four separators
  FS to US, the space, NEL and the no-break space.
\<close>

definition whitespace :: "char \<Rightarrow> bool" where
  "whitespace c \<longleftrightarrow> c \<in> {CHR 0x09, CHR 0x0A, CHR 0x0B, CHR 0x0C, CHR 0x0D,
      CHR 0x1C, CHR 0x1D, CHR 0x1E, CHR 0x1F, CHR 0x20, CHR 0x85, CHR 0xA0}"

definition lstrip :: "string \<Rightarrow> string" where
  "lstrip s = dropWhile whitespace s"

definition rstrip :: "string \<Rightarrow> string" where
  "rstrip s = rev (dropWhile whitespace (rev s))"

definition strip :: "string \<Rightarrow> string" where
  "strip s = lstrip (rstrip s)"

definition startswith :: "string \<Rightarrow> string \<Rightarrow> bool" where
  "startswith s p \<longleftrightarrow> take (length p) s = p"

text \<open>\<open>s.split(c)\<close> for a one-character separator: always at least one part.\<close>

fun split_on :: "char \<Rightarrow> string \<Rightarrow> string list" where
  "split_on c [] = [[]]"
| "split_on c (x # xs) =
     (if x = c then [] # split_on c xs
      else (case split_on c xs of [] \<Rightarrow> [[x]] | w # ws \<Rightarrow> (x # w) # ws))"

text \<open>
  \<open>a, b = s.split(c, 1)\<close>: the text before the first \<open>c\<close> and the text after it; the
  unpacking raises \<open>ValueError\<close> when \<open>s\<close> has no \<open>c\<close>.
\<close>

definition split_once :: "char \<Rightarrow> string \<Rightarrow> error + (string \<times> string)" where
  "split_once c s =
     (if c \<in> set s then Inr (takeWhile (\<lambda>x. x \<noteq> c) s, drop 1 (dropWhile (\<lambda>x. x \<noteq> c) s))
      else Inl ValueError)"

text \<open>
  \<open>readlines()\<close> of a file opened in text mode, on the text as the file holds it. The
  mode translates line ends: a line feed, a carriage return followed by a line feed, and a
  carriage return alone each end a line, and each is read as one line feed. Every line keeps
  that line feed, the last one has none when the text does not end in a line end, and no line
  is empty.
\<close>

fun readlines :: "string \<Rightarrow> string list" where
  "readlines [] = []"
| "readlines [c] = (if c = CHR 0x0A \<or> c = CHR 0x0D then [[CHR 0x0A]] else [[c]])"
| "readlines (c # d # ds) =
     (if c = CHR 0x0D \<and> d = CHR 0x0A then [CHR 0x0A] # readlines ds
      else if c = CHR 0x0A \<or> c = CHR 0x0D then [CHR 0x0A] # readlines (d # ds)
      else (case readlines (d # ds) of [] \<Rightarrow> [[c]] | l # ls \<Rightarrow> (c # l) # ls))"

section \<open>The local file system\<close>

datatype node = File string | Dir

type_synonym filesystem = "string \<rightharpoonup> node"

text \<open>\<open>os.path.exists\<close> and \<open>os.path.isfile\<close>.\<close>

definition path_exists :: "filesystem \<Rightarrow> string \<Rightarrow> bool" where
  "path_exists fs p \<longleftrightarrow> fs p \<noteq> None"

definition isfile :: "filesystem \<Rightarrow> string \<Rightarrow> bool" where
  "isfile fs p \<longleftrightarrow> (case fs p of Some (File c) \<Rightarrow> True | _ \<Rightarrow> False)"

text \<open>
  \<open>os.path.dirname\<close>: the text up to the last slash, without the slashes that end it
  unless it is made of slashes only.
\<close>

definition dirname :: "string \<Rightarrow> string" where
  "dirname p =
     (let head = rev (dropWhile (\<lambda>c. c \<noteq> CHR ''/'') (rev p))
      in if head \<noteq> [] \<and> \<not> list_all (\<lambda>c. c = CHR ''/'') head
         then rev (dropWhile (\<lambda>c. c = CHR ''/'') (rev head))
         else head)"

text \<open>
  Writing the whole content of the file at path \<open>p\<close>, creating the file when it is not
  there: a directory cannot be written, and a path with a directory part needs that directory
  (the current directory and the root are always there).
\<close>

definition create_file :: "filesystem \<Rightarrow> string \<Rightarrow> string \<Rightarrow> error + filesystem" where
  "create_file fs p content =
     (if fs p = Some Dir then Inl IsADirectoryError
      else if dirname p = [] \<or> list_all (\<lambda>c. c = CHR ''/'') (dirname p)
      then Inr (fs(p \<mapsto> File content))
      else (case fs (dirname p) of
              None \<Rightarrow> Inl FileNotFoundError
            | Some (File c) \<Rightarrow> Inl NotADirectoryError
            | Some Dir \<Rightarrow> Inr (fs(p \<mapsto> File content))))"

text \<open>\<open>open(p, 'r')\<close> followed by reading the whole text.\<close>

definition read_text :: "filesystem \<Rightarrow> string \<Rightarrow> error + string" where
  "read_text fs p =
     (case fs p of None \<Rightarrow> Inl FileNotFoundError | Some Dir \<Rightarrow> Inl IsADirectoryError
      | Some (File c) \<Rightarrow> Inr c)"

section \<open>The configuration parser\<close>

text \<open>
  \<open>get_useful_lines\<close>: a missing file ends the process with status 1; otherwise every line
  of the file that does not start with \<open>#\<close> and has positive length is yielded with its
  trailing whitespace removed. The length is taken before the newline is removed.
\<close>

definition get_useful_lines :: "filesystem \<Rightarrow> string \<Rightarrow> error + string list" where
  "get_useful_lines fs filename =
     (if \<not> path_exists fs filename \<or> \<not> isfile fs filename then Inl (SystemExit (Some 1))
      else and_then (read_text fs filename) (\<lambda>text.
        Inr (map rstrip (filter (\<lambda>line. \<not> startswith line ''#'' \<and> length line > 0)
                           (readlines text)))))"

text \<open>
  The state of the loop of \<open>get_config_value\<close>: the pending \<open>result\<close> (a string or a
  list), the variable \<open>key\<close> (unbound until the first key line) and the dictionary
  \<open>results\<close>.
\<close>

type_synonym config_state = "pyval \<times> string option \<times> (string \<rightharpoonup> pyval)"

text \<open>\<open>if len(result) > 0: results[key] = result\<close>.\<close>

definition store_previous :: "config_state \<Rightarrow> error + (string \<rightharpoonup> pyval)" where
  "store_previous st =
     (case st of (result, key, results) \<Rightarrow>
        if py_len result > 0
        then (case key of None \<Rightarrow> Inl UnboundLocalError | Some k \<Rightarrow> Inr (results(k \<mapsto> result)))
        else Inr results)"

text \<open>\<open>result.append(x)\<close>: only a list has the method.\<close>

definition py_append :: "pyval \<Rightarrow> string \<Rightarrow> error + pyval" where
  "py_append result x =
     (case result of PList xs \<Rightarrow> Inr (PList (xs @ [x])) | _ \<Rightarrow> Inl AttributeError)"

definition config_line :: "config_state \<Rightarrow> string \<Rightarrow> error + config_state" where
  "config_line st line =
     (case st of (result, key, results) \<Rightarrow>
        if CHR '':'' \<in> set line \<and> \<not> startswith line '' ''
        then and_then (store_previous st) (\<lambda>results'.
             and_then (split_once CHR '':'' (strip line)) (\<lambda>(k, v).
               let value = strip v in
               Inr (if length value > 0 then PStr value else PList [], Some k, results')))
        else and_then (py_append result (strip line)) (\<lambda>result'.
               Inr (result', key, results)))"

fun config_loop :: "config_state \<Rightarrow> string list \<Rightarrow> error + config_state" where
  "config_loop st [] = Inr st"
| "config_loop st (line # lines) =
     and_then (config_line st line) (\<lambda>st'. config_loop st' lines)"

text \<open>The dictionary \<open>results\<close> as it stands when the lookup of \<open>config_key\<close> starts.\<close>

definition config_results :: "filesystem \<Rightarrow> string option \<Rightarrow> error + (string \<rightharpoonup> pyval)" where
  "config_results fs filename =
     (let fname = (case filename of None \<Rightarrow> ''PlatformChargeback.cfg'' | Some f \<Rightarrow> f) in
      and_then (get_useful_lines fs fname) (\<lambda>lines.
      and_then (config_loop (PStr [], None, Map.empty) lines) store_previous))"

definition get_config_value ::
  "filesystem \<Rightarrow> string \<Rightarrow> string option \<Rightarrow> bool \<Rightarrow> error + pyval" where
  "get_config_value fs config_key filename suppress_key_not_found =
     and_then (config_results fs filename) (\<lambda>results.
       case results config_key of
         Some v \<Rightarrow> Inr v
       | None \<Rightarrow> if suppress_key_not_found then Inr (PInt 0) else Inl (SystemExit None))"

section \<open>The environment: service bindings, files and the object store\<close>

text \<open>
  \<open>world_vcap\<close> is the environment variable \<open>VCAP_SERVICES\<close> as \<open>json.loads\<close> decodes it
  (unset is \<open>None\<close>): service names to arrays of binding objects, a binding object being a
  dictionary whose entries are dictionaries of strings. \<open>world_files\<close> is the local file
  system, a map from path to node, a directory being a path that maps to \<open>Dir\<close>.
  \<open>world_buckets\<close> is the object store, the objects of a bucket in the order in which the
  store lists them, and \<open>world_calls\<close> records the upload calls the program has made.
\<close>

type_synonym binding = "string \<rightharpoonup> (string \<rightharpoonup> string)"

datatype s3_call = UploadFile string pyval string "(string \<times> string) list option"

record world =
  world_vcap :: "(string \<rightharpoonup> binding list) option"
  world_files :: filesystem
  world_buckets :: "string \<rightharpoonup> (string \<times> string) list"
  world_calls :: "s3_call list"

text \<open>An instance is its attribute dictionary; \<open>hasattr\<close> asks whether a name is bound.\<close>

type_synonym object = "string \<rightharpoonup> pyval"

definition hasattr :: "object \<Rightarrow> string \<Rightarrow> bool" where
  "hasattr self name \<longleftrightarrow> self name \<noteq> None"

definition getattr :: "object \<Rightarrow> string \<Rightarrow> error + pyval" where
  "getattr self name = (case self name of None \<Rightarrow> Inl AttributeError | Some v \<Rightarrow> Inr v)"

definition dict_get :: "(string \<rightharpoonup> 'a) \<Rightarrow> string \<Rightarrow> error + 'a" where
  "dict_get d k = (case d k of None \<Rightarrow> Inl (KeyError k) | Some v \<Rightarrow> Inr v)"

definition get_service_from_vcap_services :: "world \<Rightarrow> string \<Rightarrow> error + binding" where
  "get_service_from_vcap_services w service_name =
     (case world_vcap w of
        None \<Rightarrow> Inl (KeyError ''VCAP_SERVICES'')
      | Some env_vars_json \<Rightarrow>
          (case env_vars_json service_name of
             None \<Rightarrow> Inl (SystemExit None)
           | Some [] \<Rightarrow> Inl IndexError
           | Some (b # _) \<Rightarrow> Inr b))"

section \<open>S3Initializer\<close>

text \<open>\<open>words = kms_key_arn.split('/')\<close> followed by \<open>words[1]\<close>.\<close>

definition kms_key_id_of_arn :: "string \<Rightarrow> error + string" where
  "kms_key_id_of_arn kms_key_arn =
     (case split_on CHR ''/'' kms_key_arn of
        w0 # w1 # _ \<Rightarrow> Inr w1
      | _ \<Rightarrow> Inl IndexError)"

definition S3Initializer_init :: "world \<Rightarrow> pyval \<Rightarrow> object \<Rightarrow> error + object" where
  "S3Initializer_init w s3_only self0 =
     (let self = self0(''s3_only'' \<mapsto> s3_only) in
      if world_vcap w \<noteq> None then
        and_then (get_service_from_vcap_services w ''aws-s3'') (\<lambda>s3_service.
        and_then (dict_get s3_service ''credentials'') (\<lambda>credentials.
        and_then (dict_get credentials ''access_key_id'') (\<lambda>access_key_id.
        and_then (dict_get credentials ''bucket'') (\<lambda>bucket.
        and_then (dict_get credentials ''secret_access_key'') (\<lambda>secret_access_key.
        and_then (if credentials ''kms_key_arn'' \<noteq> None
                  then and_then (dict_get credentials ''kms_key_arn'') kms_key_id_of_arn
                  else Inr []) (\<lambda>kms_key_id.
          Inr (self(''access_key_id'' \<mapsto> PStr access_key_id,
                    ''bucket'' \<mapsto> PStr bucket,
                    ''secret_access_key'' \<mapsto> PStr secret_access_key,
                    ''kms_key_id'' \<mapsto> PStr kms_key_id))))))))
      else if isfile (world_files w) ''aws.cfg'' then
        and_then (get_config_value (world_files w) ''access_key_id'' (Some ''aws.cfg'') False)
          (\<lambda>access_key_id.
        and_then (get_config_value (world_files w) ''secret_access_key'' (Some ''aws.cfg'') False)
          (\<lambda>secret_access_key.
        and_then (get_config_value (world_files w) ''bucket'' (Some ''aws.cfg'') False)
          (\<lambda>bucket.
        and_then (get_config_value (world_files w) ''bucket'' (Some ''aws.cfg'') True)
          (\<lambda>kms_key_id.
          Inr (self(''access_key_id'' \<mapsto> access_key_id,
                    ''secret_access_key'' \<mapsto> secret_access_key,
                    ''bucket'' \<mapsto> bucket,
                    ''kms_key_id'' \<mapsto> kms_key_id))))))
      else if truthy s3_only then Inl (SystemExit (Some 1))
      else Inr self)"

text \<open>
  \<open>get_s3_client\<close> reads the two key attributes; building the client makes no request, so
  the client itself carries no state here.
\<close>

definition get_s3_client :: "object \<Rightarrow> error + unit" where
  "get_s3_client self =
     and_then (getattr self ''access_key_id'') (\<lambda>_.
     and_then (getattr self ''secret_access_key'') (\<lambda>_. Inr ()))"

section \<open>The object store operations\<close>

text \<open>
  \<open>list_objects_v2\<close>: a bucket that does not exist is a \<open>ClientError\<close>; otherwise the
  response has the key \<open>Contents\<close> (at most 1000 entries, those whose key starts with the
  prefix) exactly when an object matches. A bucket name that is not a string is rejected
  before any request.
\<close>

definition list_objects_v2 :: "world \<Rightarrow> pyval \<Rightarrow> string \<Rightarrow> error + string list option" where
  "list_objects_v2 w bucket prefix =
     (case bucket of
        PStr b \<Rightarrow>
          (case world_buckets w b of
             None \<Rightarrow> Inl ClientError
           | Some objs \<Rightarrow>
               (let ks = take 1000 (filter (\<lambda>k. startswith k prefix) (map fst objs))
                in Inr (if ks = [] then None else Some ks)))
      | _ \<Rightarrow> Inl ValueError)"

text \<open>\<open>download_file(bucket, key, path)\<close> writes the object's content to the local path.\<close>

definition download_file :: "world \<Rightarrow> pyval \<Rightarrow> string \<Rightarrow> string \<Rightarrow> error + world" where
  "download_file w bucket key path =
     (case bucket of
        PStr b \<Rightarrow>
          (case world_buckets w b of
             None \<Rightarrow> Inl ClientError
           | Some objs \<Rightarrow>
               (case map_of objs key of
                  None \<Rightarrow> Inl ClientError
                | Some content \<Rightarrow>
                    and_then (create_file (world_files w) path content) (\<lambda>fs.
                      Inr (w\<lparr>world_files := fs\<rparr>))))
      | _ \<Rightarrow> Inl ValueError)"

text \<open>
  \<open>upload_file(path, bucket, key, ExtraArgs=extra)\<close>: the call is recorded with its extra
  arguments, and the object is put in the bucket.
\<close>

definition upload_file ::
  "world \<Rightarrow> string \<Rightarrow> pyval \<Rightarrow> string \<Rightarrow> (string \<times> string) list option \<Rightarrow> error + world" where
  "upload_file w path bucket key extra =
     (case bucket of
        PStr b \<Rightarrow>
          and_then (read_text (world_files w) path) (\<lambda>content.
            case world_buckets w b of
              None \<Rightarrow> Inl ClientError
            | Some objs \<Rightarrow>
                Inr (w\<lparr>world_buckets := (world_buckets w)(b \<mapsto> AList.update key content objs),
                       world_calls := world_calls w @ [UploadFile path bucket key extra]\<rparr>))
      | _ \<Rightarrow> Inl ValueError)"

section \<open>FileManager\<close>

definition FileManager_init :: "world \<Rightarrow> pyval \<Rightarrow> error + object" where
  "FileManager_init w s3_only = S3Initializer_init w s3_only Map.empty"

text \<open>
  \<open>files_present\<close>: with a bucket the length of the listed \<open>Contents\<close> (0 without that key),
  a \<open>ClientError\<close> of the listing ending the process by \<open>exit()\<close>; without a bucket the body
  falls off its end, and the call returns \<open>None\<close>.
\<close>

definition files_present :: "world \<Rightarrow> object \<Rightarrow> string option \<Rightarrow> error + pyval" where
  "files_present w self prefix =
     (if hasattr self ''bucket'' then
        and_then (get_s3_client self) (\<lambda>_.
        and_then (getattr self ''bucket'') (\<lambda>bucket.
          case list_objects_v2 w bucket (case prefix of None \<Rightarrow> [] | Some p \<Rightarrow> p) of
            Inl ClientError \<Rightarrow> Inl (SystemExit None)
          | Inl e \<Rightarrow> Inl e
          | Inr response \<Rightarrow>
              (case response of
                 Some contents \<Rightarrow> Inr (PInt (int (length contents)))
               | None \<Rightarrow> Inr (PInt 0))))
      else Inr PNone)"

section \<open>CsvReader\<close>

text \<open>\<open>xs[i]\<close>: a negative index counts from the end, and an index out of range raises.\<close>

definition py_index :: "'a list \<Rightarrow> int \<Rightarrow> error + 'a" where
  "py_index xs i =
     (if 0 \<le> i \<and> i < int (length xs) then Inr (xs ! nat i)
      else if i < 0 \<and> - int (length xs) \<le> i then Inr (xs ! nat (int (length xs) + i))
      else Inl IndexError)"

text \<open>
  The reader's attributes: those set by \<open>S3Initializer\<close> together with \<open>filename\<close>
  (\<open>reader_attrs\<close>), the lines of the open file not yet read (\<open>reader_file\<close>), and
  \<open>header\<close>, \<open>column_names\<close>, \<open>column_index\<close> and \<open>words\<close> as in the source;
  \<open>words\<close> is unset until \<open>readlines\<close> yields a record.
\<close>

record csv_reader =
  reader_attrs :: object
  reader_file :: "string list"
  header :: string
  column_names :: "string list"
  column_index :: "string \<rightharpoonup> nat"
  words :: "string list option"

definition CsvReader_init :: "world \<Rightarrow> string \<Rightarrow> error + (world \<times> object)" where
  "CsvReader_init w csv_filename =
     and_then (S3Initializer_init w PNone Map.empty) (\<lambda>self0.
       let self = self0(''filename'' \<mapsto> PStr csv_filename) in
       if hasattr self ''bucket'' then
         if \<not> path_exists (world_files w) csv_filename \<or> \<not> isfile (world_files w) csv_filename
         then and_then (get_s3_client self) (\<lambda>_.
              and_then (getattr self ''bucket'') (\<lambda>bucket.
              and_then (download_file w bucket csv_filename csv_filename) (\<lambda>w'.
                Inr (w', self))))
         else Inr (w, self)
       else Inr (w, self))"

text \<open>\<open>for num, column_name in enumerate(...): column_index[column_name] = num\<close>.\<close>

definition index_columns :: "string list \<Rightarrow> (string \<rightharpoonup> nat)" where
  "index_columns names = fold (\<lambda>(num, column_name) m. m(column_name \<mapsto> num))
                              (enumerate 0 names) Map.empty"

definition CsvReader_enter :: "world \<Rightarrow> object \<Rightarrow> string \<Rightarrow> error + csv_reader" where
  "CsvReader_enter w self csv_filename =
     and_then (read_text (world_files w) csv_filename) (\<lambda>text.
       let ls = readlines text;
           hdr = strip (case ls of [] \<Rightarrow> [] | l # _ \<Rightarrow> l)
       in Inr \<lparr>reader_attrs = self, reader_file = drop 1 ls, header = hdr,
                column_names = split_on CHR '','' hdr,
                column_index = index_columns (split_on CHR '','' hdr),
                words = None\<rparr>)"

text \<open>One step of the generator \<open>readlines\<close>: the next line becomes the current record.\<close>

definition next_record :: "csv_reader \<Rightarrow> string \<Rightarrow> csv_reader" where
  "next_record rd line = rd\<lparr>words := Some (split_on CHR '','' (strip line))\<rparr>"

definition column :: "csv_reader \<Rightarrow> string \<Rightarrow> error + string" where
  "column rd column_name =
     (case words rd of
        None \<Rightarrow> Inl AttributeError
      | Some ws \<Rightarrow>
          and_then (dict_get (column_index rd) column_name) (\<lambda>i. py_index ws (int i)))"

definition column_by_number :: "csv_reader \<Rightarrow> int \<Rightarrow> error + string" where
  "column_by_number rd column_number =
     (case words rd of
        None \<Rightarrow> Inl AttributeError
      | Some ws \<Rightarrow>
          if column_number > int (length ws) then Inl (SystemExit None)
          else py_index ws (column_number - 1))"

definition column_present :: "csv_reader \<Rightarrow> string \<Rightarrow> bool" where
  "column_present rd column_name \<longleftrightarrow> column_index rd column_name \<noteq> None"

section \<open>get_total_from_csv\<close>

text \<open>
  The floating-point numbers are a parameter: the value \<open>0.0\<close>, the conversion \<open>float(s)\<close>
  (\<open>None\<close> where it raises \<open>ValueError\<close>), the addition and the multiplication.
\<close>

record 'f float_ops =
  float_zero :: 'f
  float_of_str :: "string \<Rightarrow> 'f option"
  float_add :: "'f \<Rightarrow> 'f \<Rightarrow> 'f"
  float_mul :: "'f \<Rightarrow> 'f \<Rightarrow> 'f"

definition to_float :: "'f float_ops \<Rightarrow> string \<Rightarrow> error + 'f" where
  "to_float ops s = (case float_of_str ops s of None \<Rightarrow> Inl ValueError | Some x \<Rightarrow> Inr x)"

text \<open>The term added to \<open>total\<close> for the current record.\<close>

definition record_term :: "'f float_ops \<Rightarrow> csv_reader \<Rightarrow> string \<Rightarrow> error + 'f" where
  "record_term ops rd key_column =
     (if CHR ''*'' \<in> set key_column then
        (let ws = split_on CHR ''*'' key_column in
         and_then (py_index ws 0) (\<lambda>w0.
         and_then (column rd w0) (\<lambda>a.
         and_then (to_float ops a) (\<lambda>x.
         and_then (py_index ws 1) (\<lambda>w1.
         and_then (column rd w1) (\<lambda>b.
         and_then (to_float ops b) (\<lambda>y.
           Inr (float_mul ops x y))))))))
      else
        and_then (column rd key_column) (\<lambda>a. to_float ops a))"

fun total_loop ::
  "'f float_ops \<Rightarrow> csv_reader \<Rightarrow> string \<Rightarrow> 'f \<Rightarrow> string list \<Rightarrow> error + 'f" where
  "total_loop ops rd key_column tot [] = Inr tot"
| "total_loop ops rd key_column tot (line # rest) =
     and_then (record_term ops (next_record rd line) key_column) (\<lambda>t.
       total_loop ops (next_record rd line) key_column (float_add ops tot t) rest)"

definition get_total_from_csv :: "'f float_ops \<Rightarrow> world \<Rightarrow> string \<Rightarrow> string \<Rightarrow> error + 'f" where
  "get_total_from_csv ops w csv_filename key_column =
     and_then (CsvReader_init w csv_filename) (\<lambda>(w', self).
     and_then (CsvReader_enter w' self csv_filename) (\<lambda>csv_reader.
       if \<not> column_present csv_reader key_column then Inl (SystemExit None)
       else total_loop ops csv_reader key_column (float_zero ops) (reader_file csv_reader)))"

section \<open>S3Writer and CsvWriter\<close>

text \<open>\<open>os.path.basename\<close>: the text after the last slash.\<close>

definition basename :: "string \<Rightarrow> string" where
  "basename p = last (split_on CHR ''/'' p)"

text \<open>
  \<open>shutil.copy2(src, dst)\<close>: the content of the file \<open>src\<close> is written to \<open>dst\<close>, or, when
  \<open>dst\<close> is a directory, to the entry of that directory named as \<open>src\<close> is.
\<close>

definition copy2 :: "filesystem \<Rightarrow> string \<Rightarrow> string \<Rightarrow> error + filesystem" where
  "copy2 fs src dst =
     (case fs src of
        None \<Rightarrow> Inl FileNotFoundError
      | Some Dir \<Rightarrow> Inl IsADirectoryError
      | Some (File c) \<Rightarrow>
          (let target = (if fs dst = Some Dir then dst @ ''/'' @ basename src else dst)
           in create_file fs target c))"

text \<open>\<open>open(p, 'w')\<close>: the file is created or truncated.\<close>

definition open_w :: "filesystem \<Rightarrow> string \<Rightarrow> error + filesystem" where
  "open_w fs p = create_file fs p []"

text \<open>\<open>print(s, file=f)\<close> on the file opened at path \<open>p\<close>.\<close>

definition file_print :: "world \<Rightarrow> string \<Rightarrow> string \<Rightarrow> world" where
  "file_print w p s =
     (case world_files w p of
        Some (File c) \<Rightarrow> w\<lparr>world_files := (world_files w)(p \<mapsto> File (c @ s @ [CHR 0x0A]))\<rparr>
      | _ \<Rightarrow> w)"

definition S3Writer_init :: "world \<Rightarrow> string \<Rightarrow> pyval \<Rightarrow> error + object" where
  "S3Writer_init w filename s3_only = S3Initializer_init w s3_only [''filename'' \<mapsto> PStr filename]"

text \<open>
  \<open>S3Writer.__enter__\<close> in its two stages: \<open>S3Writer_backup\<close> is the state in which
  \<open>open(self.filename, 'w')\<close> is about to run, and \<open>S3Writer_enter\<close> the state after it.
\<close>

definition S3Writer_backup :: "world \<Rightarrow> string \<Rightarrow> error + world" where
  "S3Writer_backup w filename =
     (if path_exists (world_files w) filename
      then and_then (copy2 (world_files w) filename (filename @ ''.sav'')) (\<lambda>fs.
             Inr (w\<lparr>world_files := fs\<rparr>))
      else Inr w)"

definition S3Writer_enter :: "world \<Rightarrow> object \<Rightarrow> string \<Rightarrow> error + (world \<times> object)" where
  "S3Writer_enter w self filename =
     and_then (S3Writer_backup w filename) (\<lambda>w1.
     and_then (open_w (world_files w1) filename) (\<lambda>fs.
       Inr (w1\<lparr>world_files := fs\<rparr>, self(''file'' \<mapsto> PFile filename))))"

definition S3Writer_exit :: "world \<Rightarrow> object \<Rightarrow> string \<Rightarrow> error + world" where
  "S3Writer_exit w self filename =
     and_then (getattr self ''file'') (\<lambda>file.
       if truthy file then
         if hasattr self ''bucket'' then
           (let extraArgs =
                  (if hasattr self ''kms_key_arn''
                   then Some [(''ServerSideEncryption'', ''aws:kms''),
                              (''SSEKMSKeyID'', ''self.kms_key_arn'')]
                   else None)
            in and_then (get_s3_client self) (\<lambda>_.
               and_then (getattr self ''bucket'') (\<lambda>bucket.
                 upload_file w filename bucket filename extraArgs)))
         else Inr w
       else Inr w)"

text \<open>
  The writer of csv files: the attributes set by \<open>S3Initializer\<close> (\<open>writer_attrs\<close>), and
  \<open>filename\<close>, \<open>current_line\<close>, \<open>lines\<close>, \<open>header\<close> and \<open>file\<close> of the source under the
  names below.
\<close>

record csv_writer =
  writer_attrs :: object
  writer_filename :: string
  current_line :: string
  writer_lines :: "string list"
  writer_header :: "string option"
  writer_file :: "string option"

definition CsvWriter_init :: "world \<Rightarrow> string \<Rightarrow> string option \<Rightarrow> error + csv_writer" where
  "CsvWriter_init w filename hdr =
     and_then (S3Initializer_init w PNone Map.empty) (\<lambda>attrs.
       Inr \<lparr>writer_attrs = attrs, writer_filename = filename, current_line = [],
            writer_lines = [], writer_header = hdr, writer_file = None\<rparr>)"

definition CsvWriter_enter :: "world \<Rightarrow> csv_writer \<Rightarrow> error + (world \<times> csv_writer)" where
  "CsvWriter_enter w self =
     and_then (open_w (world_files w) (writer_filename self)) (\<lambda>fs.
       Inr (w\<lparr>world_files := fs\<rparr>, self\<lparr>writer_file := Some (writer_filename self)\<rparr>))"

definition add_value :: "csv_writer \<Rightarrow> string \<Rightarrow> csv_writer" where
  "add_value self v =
     (if current_line self = [] then self\<lparr>current_line := v\<rparr>
      else self\<lparr>current_line := current_line self @ '','' @ v\<rparr>)"

definition add_values :: "csv_writer \<Rightarrow> string list \<Rightarrow> csv_writer" where
  "add_values self value_list = fold (\<lambda>v s. add_value s v) value_list self"

definition new_line :: "csv_writer \<Rightarrow> csv_writer" where
  "new_line self = self\<lparr>writer_lines := writer_lines self @ [current_line self], current_line := []\<rparr>"

definition CsvWriter_exit :: "world \<Rightarrow> csv_writer \<Rightarrow> error + world" where
  "CsvWriter_exit w self =
     (case writer_file self of
        None \<Rightarrow> Inl AttributeError
      | Some f \<Rightarrow>
          (let w1 = (case writer_header self of
                       None \<Rightarrow> w
                     | Some h \<Rightarrow> if h \<noteq> [] then file_print w f h else w);
               w2 = fold (\<lambda>line v. file_print v f line) (writer_lines self) w1
           in if hasattr (writer_attrs self) ''bucket'' then
                and_then (get_s3_client (writer_attrs self)) (\<lambda>_.
                and_then (getattr (writer_attrs self) ''bucket'') (\<lambda>bucket.
                  upload_file w2 (writer_filename self) bucket (writer_filename self) None))
              else Inr w2))"

section \<open>Scoped use of the writers\<close>

text \<open>
  \<open>with S3Writer(filename, s3_only) as file:\<close> with a body that prints the given lines to
  \<open>file\<close>, and \<open>with CsvWriter(filename, header) as csv_writer:\<close> with a body that adds the
  given rows, as \<open>generate_csv\<close> and the report scripts use the two classes.
\<close>

definition with_S3Writer :: "world \<Rightarrow> string \<Rightarrow> pyval \<Rightarrow> string list \<Rightarrow> error + world" where
  "with_S3Writer w filename s3_only body =
     and_then (S3Writer_init w filename s3_only) (\<lambda>self.
     and_then (S3Writer_enter w self filename) (\<lambda>(w1, self1).
       S3Writer_exit (fold (\<lambda>s v. file_print v filename s) body w1) self1 filename))"

definition with_CsvWriter ::
  "world \<Rightarrow> string \<Rightarrow> string option \<Rightarrow> string list list \<Rightarrow> error + world" where
  "with_CsvWriter w filename hdr rows =
     and_then (CsvWriter_init w filename hdr) (\<lambda>self.
     and_then (CsvWriter_enter w self) (\<lambda>(w1, self1).
       CsvWriter_exit w1 (fold (\<lambda>row s. new_line (add_values s row)) rows self1)))"

section \<open>Example inputs\<close>

definition example_cfg :: filesystem where
  "example_cfg = [''c.cfg'' \<mapsto>
     File ''LICENSED_SERVICES:\<newline>- foo\<newline>- bar\<newline>month: 202401\<newline>'']"

definition local_world :: world where
  "local_world = \<lparr>world_vcap = None,
     world_files = [''report.csv'' \<mapsto> File ''old'', ''notes.txt'' \<mapsto> File ''n''],
     world_buckets = Map.empty, world_calls = []\<rparr>"

definition vcap_world :: world where
  "vcap_world = \<lparr>world_vcap = Some [''aws-s3'' \<mapsto> [[''credentials'' \<mapsto>
       [''access_key_id'' \<mapsto> ''AKIA'', ''secret_access_key'' \<mapsto> ''s3cr3t'',
        ''bucket'' \<mapsto> ''reports'',
        ''kms_key_arn'' \<mapsto> ''arn:aws:kms:us-east-1:1234:key/abcd'']]]],
     world_files = [''report.csv'' \<mapsto> File ''old''],
     world_buckets = [''reports'' \<mapsto> [(''a.csv'', ''1''), (''b.csv'', ''2'')]],
     world_calls = []\<rparr>"

definition aws_cfg_world :: world where
  "aws_cfg_world = \<lparr>world_vcap = None,
     world_files = [''aws.cfg'' \<mapsto> File
       ''access_key_id: AKIA\<newline>secret_access_key: s3cr3t\<newline>bucket: reports\<newline>kms_key_arn: arn:aws:kms:us-east-1:1234:key/abcd\<newline>''],
     world_buckets = [''reports'' \<mapsto> []], world_calls = []\<rparr>"

definition csv_world :: world where
  "csv_world = \<lparr>world_vcap = None,
     world_files = [''t.csv'' \<mapsto> File ''a,b\<newline>2.0,3.0\<newline>'',
                    ''u.csv'' \<mapsto> File ''a\<newline>1.5\<newline>2.5\<newline>''],
     world_buckets = Map.empty, world_calls = []\<rparr>"

definition two_fields :: csv_reader where
  "two_fields = \<lparr>reader_attrs = [''filename'' \<mapsto> PStr ''t.csv''], reader_file = [],
     header = ''a,b'', column_names = [''a'', ''b''],
     column_index = [''a'' \<mapsto> 0, ''b'' \<mapsto> 1], words = Some [''x'', ''y'']\<rparr>"

section \<open>The configuration file format\<close>



















section \<open>The numeric field of a record\<close>

text \<open>
  The number in field \<open>i\<close> (counted from 0) of a line of a csv file, where the line has such
  a field and \<open>float\<close> accepts it. It states what a total is a sum of.
\<close>

definition field_float :: "'f float_ops \<Rightarrow> nat \<Rightarrow> string \<Rightarrow> 'f option" where
  "field_float ops i line =
     (let ws = split_on CHR '','' (strip line)
      in if i < length ws then float_of_str ops (ws ! i) else None)"

section \<open>Lemmas on text\<close>

lemma whitespace_newline [simp]: "whitespace (CHR 0x0A)"
  and whitespace_space [simp]: "whitespace (CHR '' '')"
  and not_whitespace_colon [simp]: "\<not> whitespace (CHR '':'')"
  by (simp_all add: whitespace_def)




















lemma startswith_Nil: "\<not> startswith [] [d]"
  by (simp add: startswith_def)

section \<open>Parsing a well-formed file\<close>

subsection \<open>Its lines\<close>










subsection \<open>One line of the loop\<close>







subsection \<open>The loop over a well-formed file\<close>














section \<open>The claims on the configuration parser\<close>

lemma example_cfg_results:
  "config_results example_cfg (Some ''c.cfg'') =
     Inr [''LICENSED_SERVICES'' \<mapsto> PList [''- foo'', ''- bar''], ''month'' \<mapsto> PStr ''202401'']"
  by (simp add: example_cfg_def config_results_def get_useful_lines_def and_then_def
      path_exists_def isfile_def read_text_def config_line_def store_previous_def py_append_def
      startswith_def rstrip_def strip_def lstrip_def whitespace_def split_once_def)

text \<open>
  Claim C5 says that blank lines are ignored: inserting one changes no value. The code keeps
  them. The test \<open>len(line) > 0\<close> of \<open>get_useful_lines\<close> runs on the line with its newline, so
  a blank line passes it and is yielded as the empty string: inside the continuation region of
  a list key it becomes an empty member, and after a scalar key it is appended to a string,
  which raises \<open>AttributeError\<close>.
\<close>

theorem blank_line_not_ignored:
  "get_config_value [''c.cfg'' \<mapsto> File ''K:\<newline>- foo\<newline>- bar\<newline>''] ''K'' (Some ''c.cfg'') False
     = Inr (PList [''- foo'', ''- bar'']) \<and>
   get_config_value [''c.cfg'' \<mapsto> File ''K:\<newline>- foo\<newline>\<newline>- bar\<newline>''] ''K'' (Some ''c.cfg'') False
     = Inr (PList [''- foo'', [], ''- bar'']) \<and>
   get_config_value [''c.cfg'' \<mapsto> File ''a: 1\<newline>b: 2\<newline>''] ''a'' (Some ''c.cfg'') False
     = Inr (PStr ''1'') \<and>
   get_config_value [''c.cfg'' \<mapsto> File ''a: 1\<newline>\<newline>b: 2\<newline>''] ''a'' (Some ''c.cfg'') False
     = Inl AttributeError"
  by code_simp




text \<open>
  Claim C8: for every configuration file that parses and every key absent from it,
  \<open>get_config_value\<close> ends the process when \<open>suppress_key_not_found\<close> is false and returns
  the integer 0 when it is true; for a key that is present, the flag does not change the value
  returned.
\<close>

theorem get_config_value_missing_key:
  assumes "config_results fs filename = Inr results"
  shows "(results config_key = None \<longrightarrow>
            get_config_value fs config_key filename False = Inl (SystemExit None) \<and>
            get_config_value fs config_key filename True = Inr (PInt 0)) \<and>
         (\<forall>v. results config_key = Some v \<longrightarrow>
            get_config_value fs config_key filename False = Inr v \<and>
            get_config_value fs config_key filename True = Inr v)"
  using assms by (simp add: get_config_value_def and_then_def)

theorem get_config_value_missing_key_witness:
  "get_config_value example_cfg ''year'' (Some ''c.cfg'') False = Inl (SystemExit None) \<and>
   get_config_value example_cfg ''year'' (Some ''c.cfg'') True = Inr (PInt 0) \<and>
   get_config_value example_cfg ''month'' (Some ''c.cfg'') False = Inr (PStr ''202401'') \<and>
   get_config_value example_cfg ''month'' (Some ''c.cfg'') True = Inr (PStr ''202401'')"
  using get_config_value_missing_key [OF example_cfg_results, of "''year''"]
        get_config_value_missing_key [OF example_cfg_results, of "''month''"]
  by simp

text \<open>
  Claim C9: for every configuration file that parses and every key absent from it, with
  suppression off, \<open>get_config_value\<close> ends the process by \<open>exit()\<close> without an argument, and
  the exit status of the process is 0.
\<close>

theorem get_config_value_missing_key_status:
  assumes "config_results fs filename = Inr results" and "results config_key = None"
  shows "\<exists>e. get_config_value fs config_key filename False = Inl e \<and>
             e = SystemExit None \<and> exit_status e = 0"
  using assms by (simp add: get_config_value_def and_then_def)

theorem get_config_value_missing_key_status_witness:
  "\<exists>e. get_config_value example_cfg ''year'' (Some ''c.cfg'') False = Inl e \<and>
       e = SystemExit None \<and> exit_status e = 0"
  using get_config_value_missing_key_status [OF example_cfg_results, of "''year''"]
  by simp

section \<open>The claims on credentials, the catalog and the writers\<close>

text \<open>
  Claim C3 says that from \<open>aws.cfg\<close> the encryption key id is read from a key of its own, and
  that only the segment after the slash is kept. The code reads the key \<open>bucket\<close> a second
  time and splits nothing: with a bucket \<open>reports\<close> and a line
  \<open>kms_key_arn: arn:aws:kms:us-east-1:1234:key/abcd\<close> in the file, \<open>kms_key_id\<close> is
  \<open>reports\<close>.
\<close>

theorem aws_cfg_kms_key_id_is_bucket:
  "get_config_value (world_files aws_cfg_world) ''kms_key_arn'' (Some ''aws.cfg'') False
     = Inr (PStr ''arn:aws:kms:us-east-1:1234:key/abcd'') \<and>
   map_sum id (\<lambda>self. (self ''bucket'', self ''kms_key_id''))
     (S3Initializer_init aws_cfg_world PNone Map.empty)
     = Inr (Some (PStr ''reports''), Some (PStr ''reports''))"
  by code_simp

text \<open>
  Claim C4 says that a write in remote-backed mode with an encryption key id configured passes
  server-side-encryption parameters to the upload. The code tests for an attribute
  \<open>kms_key_arn\<close>, which no initializer sets (the id is stored as \<open>kms_key_id\<close>), so the
  upload is called with \<open>ExtraArgs=None\<close>: here the key id \<open>abcd\<close> is configured and the one
  upload of the scope carries no extra arguments.
\<close>

theorem upload_without_encryption_parameters:
  "map_sum id (\<lambda>self. self ''kms_key_id'') (S3Writer_init vcap_world ''report.csv'' PNone)
     = Inr (Some (PStr ''abcd'')) \<and>
   map_sum id world_calls (with_S3Writer vcap_world ''report.csv'' PNone [''new''])
     = Inr [UploadFile ''report.csv'' (PStr ''reports'') ''report.csv'' None]"
  by code_simp

text \<open>
  Claim C1 says that both writers back an existing file up to \<open><name>.sav\<close> before they
  truncate it. \<open>S3Writer.__enter__\<close> does; \<open>CsvWriter.__enter__\<close> opens the file for writing
  at once: with \<open>report.csv\<close> holding \<open>old\<close>, entering a \<open>CsvWriter\<close> leaves the file empty
  and no \<open>report.csv.sav\<close>, where entering an \<open>S3Writer\<close> leaves \<open>old\<close> in
  \<open>report.csv.sav\<close>.
\<close>

theorem CsvWriter_enter_makes_no_backup:
  "world_files local_world ''report.csv'' = Some (File ''old'') \<and>
   map_sum id (\<lambda>(w1, self1). (world_files w1 ''report.csv'', world_files w1 ''report.csv.sav''))
     (and_then (CsvWriter_init local_world ''report.csv'' None) (CsvWriter_enter local_world))
     = Inr (Some (File []), None) \<and>
   map_sum id (\<lambda>(w1, self1). (world_files w1 ''report.csv'', world_files w1 ''report.csv.sav''))
     (and_then (S3Writer_init local_world ''report.csv'' PNone)
        (\<lambda>self. S3Writer_enter local_world self ''report.csv''))
     = Inr (Some (File []), Some (File ''old''))"
  by code_simp

text \<open>
  Claim C10: without a bucket attribute (local-only mode) \<open>files_present\<close> returns \<open>None\<close>
  for every prefix and every state of the files; with a bucket attribute it returns an integer
  that is not negative, or ends in an error; and a \<open>FileManager\<close> built with no
  \<open>VCAP_SERVICES\<close>, no \<open>aws.cfg\<close> and no demand for the object store has no bucket attribute.
\<close>

theorem files_present_local_only:
  "(\<not> hasattr self ''bucket'' \<longrightarrow> files_present w self prefix = Inr PNone) \<and>
   (hasattr self ''bucket'' \<longrightarrow>
      (\<exists>n. files_present w self prefix = Inr (PInt n) \<and> 0 \<le> n) \<or>
      (\<exists>e. files_present w self prefix = Inl e)) \<and>
   (world_vcap w = None \<and> \<not> isfile (world_files w) ''aws.cfg'' \<and> \<not> truthy s3_only \<longrightarrow>
      (\<exists>fm. FileManager_init w s3_only = Inr fm \<and> \<not> hasattr fm ''bucket'' \<and>
            files_present w fm prefix = Inr PNone))"
proof (intro conjI impI)
  assume "\<not> hasattr self ''bucket''"
  then show "files_present w self prefix = Inr PNone"
    by (simp add: files_present_def)
next
  assume "hasattr self ''bucket''"
  then show "(\<exists>n. files_present w self prefix = Inr (PInt n) \<and> 0 \<le> n) \<or>
      (\<exists>e. files_present w self prefix = Inl e)"
    by (auto simp: files_present_def and_then_def split: sum.splits option.splits error.splits)
next
  assume "world_vcap w = None \<and> \<not> isfile (world_files w) ''aws.cfg'' \<and> \<not> truthy s3_only"
  then have "FileManager_init w s3_only = Inr [''s3_only'' \<mapsto> s3_only]"
    by (simp add: FileManager_init_def S3Initializer_init_def)
  then show "\<exists>fm. FileManager_init w s3_only = Inr fm \<and> \<not> hasattr fm ''bucket'' \<and>
            files_present w fm prefix = Inr PNone"
    by (simp add: hasattr_def files_present_def)
qed

theorem files_present_local_only_witness:
  "files_present local_world [''s3_only'' \<mapsto> PNone] (Some ''rep'') = Inr PNone \<and>
   (\<exists>fm. FileManager_init local_world PNone = Inr fm \<and> \<not> hasattr fm ''bucket'' \<and>
         files_present local_world fm None = Inr PNone) \<and>
   files_present vcap_world
     [''access_key_id'' \<mapsto> PStr ''AKIA'', ''secret_access_key'' \<mapsto> PStr ''s3cr3t'',
      ''bucket'' \<mapsto> PStr ''reports''] None = Inr (PInt 2)"
proof -
  have a: "\<not> hasattr [''s3_only'' \<mapsto> PNone] ''bucket''"
    by (simp add: hasattr_def)
  have b: "world_vcap local_world = None \<and> \<not> isfile (world_files local_world) ''aws.cfg'' \<and>
           \<not> truthy PNone"
    by (simp add: local_world_def isfile_def)
  have c: "files_present vcap_world
     [''access_key_id'' \<mapsto> PStr ''AKIA'', ''secret_access_key'' \<mapsto> PStr ''s3cr3t'',
      ''bucket'' \<mapsto> PStr ''reports''] None = Inr (PInt 2)"
    by code_simp
  from files_present_local_only [of "[''s3_only'' \<mapsto> PNone]" local_world "Some ''rep''" PNone] a
  have 1: "files_present local_world [''s3_only'' \<mapsto> PNone] (Some ''rep'') = Inr PNone"
    by blast
  from files_present_local_only [of "[''s3_only'' \<mapsto> PNone]" local_world None PNone] b
  have 2: "\<exists>fm. FileManager_init local_world PNone = Inr fm \<and> \<not> hasattr fm ''bucket'' \<and>
            files_present local_world fm None = Inr PNone"
    by blast
  from 1 2 c show ?thesis by blast
qed

section \<open>The claims on csv files\<close>

text \<open>
  Claim C2 says that \<open>get_total_from_csv\<close> with the spec \<open>a*b\<close> sums the products of the
  columns \<open>a\<close> and \<open>b\<close>. The code first asks \<open>column_present\<close> for the whole spec, and a
  header \<open>a,b\<close> has no column named \<open>a*b\<close>: on the file with the record \<open>2.0,3.0\<close> the call
  ends the process by \<open>exit()\<close>, whatever the floating-point operations are.
\<close>

theorem product_spec_exits:
  "get_total_from_csv ops csv_world ''t.csv'' ''a*b'' = Inl (SystemExit None)"
  by (simp add: get_total_from_csv_def csv_world_def CsvReader_init_def S3Initializer_init_def
      CsvReader_enter_def column_present_def index_columns_def hasattr_def enumerate_eq_zip
      and_then_def path_exists_def isfile_def read_text_def strip_def lstrip_def rstrip_def
      whitespace_def)

text \<open>
  Claim C7 says that \<open>column_by_number\<close> signals a fatal error for every number below 1. The
  code checks the upper bound only, and the index \<open>column_number - 1\<close> of a number below 1 is
  negative, which counts from the end of the record: number 0 of the record \<open>x,y\<close> is the last
  field \<open>y\<close>.
\<close>

theorem column_by_number_zero_is_last:
  "words two_fields = Some [''x'', ''y''] \<and> column_by_number two_fields 0 = Inr ''y''"
  by code_simp

section \<open>Further properties of the modelled functions\<close>

text \<open>
  The properties below hold for all inputs. They show where each of the functions above does
  what its description says, and how far the deviations shown at single inputs extend.
\<close>

subsection \<open>The range of \<open>column_by_number\<close>\<close>

text \<open>
  For a record of k fields: the numbers 1 to k give the field of that number, a number above k
  ends the process, the numbers from 1 - k to 0 give a field counted from the end, and a number
  of at most - k raises \<open>IndexError\<close>.
\<close>

lemma column_by_number_in_range:
  assumes "words rd = Some ws" and "1 \<le> n" and "n \<le> int (length ws)"
  shows "column_by_number rd n = Inr (ws ! nat (n - 1))"
  using assms by (simp add: column_by_number_def py_index_def)

lemma column_by_number_above:
  assumes "words rd = Some ws" and "int (length ws) < n"
  shows "column_by_number rd n = Inl (SystemExit None)"
  using assms by (simp add: column_by_number_def)

lemma column_by_number_wraps:
  assumes "words rd = Some ws" and "n < 1" and "- int (length ws) < n"
  shows "column_by_number rd n = Inr (ws ! nat (int (length ws) + n - 1))"
  using assms by (simp add: column_by_number_def py_index_def algebra_simps)

lemma column_by_number_far_below:
  assumes "words rd = Some ws" and "n \<le> - int (length ws)"
  shows "column_by_number rd n = Inl IndexError"
  using assms by (simp add: column_by_number_def py_index_def)

subsection \<open>The backup of \<open>S3Writer\<close>\<close>

text \<open>
  When the target is a file in a directory that is there and \<open><name>.sav\<close> is not a
  directory, \<open>S3Writer.__enter__\<close>
  has copied the old content to \<open><name>.sav\<close> in the state in which it opens the target,
  and the copy is still there once the target is truncated. \<open>CsvWriter.__enter__\<close> changes
  the target and nothing else.
\<close>

lemma dirname_sav: "dirname (filename @ ''.sav'') = dirname filename"
  by (simp add: dirname_def)

lemma create_file_in_directory:
  assumes "fs p \<noteq> Some Dir"
    and "dirname p = [] \<or> list_all (\<lambda>c. c = CHR ''/'') (dirname p) \<or> fs (dirname p) = Some Dir"
  shows "create_file fs p content = Inr (fs(p \<mapsto> File content))"
  using assms by (auto simp: create_file_def)

lemma S3Writer_backup_keeps_old_content:
  assumes "world_files w filename = Some (File c)"
    and "world_files w (filename @ ''.sav'') \<noteq> Some Dir"
    and "dirname filename = [] \<or> list_all (\<lambda>c. c = CHR ''/'') (dirname filename) \<or>
         world_files w (dirname filename) = Some Dir"
  shows "\<exists>w1. S3Writer_backup w filename = Inr w1 \<and>
              world_files w1 (filename @ ''.sav'') = Some (File c) \<and>
              world_files w1 filename = Some (File c)"
  using assms create_file_in_directory [of "world_files w" "filename @ ''.sav''" c]
  by (simp add: S3Writer_backup_def path_exists_def copy2_def and_then_def dirname_sav)

lemma S3Writer_enter_after_backup:
  assumes "world_files w filename = Some (File c)"
    and "world_files w (filename @ ''.sav'') \<noteq> Some Dir"
    and "dirname filename = [] \<or> list_all (\<lambda>c. c = CHR ''/'') (dirname filename) \<or>
         world_files w (dirname filename) = Some Dir"
  shows "\<exists>w2 self'. S3Writer_enter w self filename = Inr (w2, self') \<and>
              world_files w2 (filename @ ''.sav'') = Some (File c) \<and>
              world_files w2 filename = Some (File [])"
proof -
  obtain w1 where w1: "S3Writer_backup w filename = Inr w1"
      "world_files w1 (filename @ ''.sav'') = Some (File c)"
      "world_files w1 filename = Some (File c)"
      "world_files w1 = (world_files w)(filename @ ''.sav'' \<mapsto> File c)"
    using assms create_file_in_directory [of "world_files w" "filename @ ''.sav''" c]
    by (simp add: S3Writer_backup_def path_exists_def copy2_def and_then_def dirname_sav)
  have "dirname filename \<noteq> filename @ ''.sav''"
  proof
    assume "dirname filename = filename @ ''.sav''"
    then have "length (dirname filename) = length filename + 4" by simp
    moreover have "length (dirname filename) \<le> length filename"
      by (simp add: dirname_def Let_def)
         (metis length_dropWhile_le length_rev order_trans)
    ultimately show False by simp
  qed
  then have "create_file (world_files w1) filename [] = Inr ((world_files w1)(filename \<mapsto> File []))"
    using w1(3,4) assms(3) by (intro create_file_in_directory) auto
  then show ?thesis
    using w1 by (simp add: S3Writer_enter_def open_w_def and_then_def)
qed

lemma CsvWriter_enter_only_truncates:
  assumes "CsvWriter_enter w self = Inr (w1, self1)"
  shows "world_files w1 = (world_files w)(writer_filename self \<mapsto> File [])"
  using assms
  by (auto simp: CsvWriter_enter_def open_w_def create_file_def and_then_def
      split: if_splits option.splits node.splits)

subsection \<open>The attributes set by the initializer\<close>

text \<open>
  \<open>S3Initializer\<close> sets no attribute named \<open>kms_key_arn\<close>, so every upload of an
  \<open>S3Writer\<close> has \<open>ExtraArgs=None\<close>; and whenever the credentials come from \<open>aws.cfg\<close>,
  \<open>kms_key_id\<close> is the value of \<open>bucket\<close>.
\<close>

lemma S3Initializer_init_attrs:
  assumes "S3Initializer_init w s3_only self0 = Inr self"
  shows "dom self \<subseteq> dom self0 \<union>
           {''s3_only'', ''access_key_id'', ''bucket'', ''secret_access_key'', ''kms_key_id''}"
  using assms
  by (auto simp: S3Initializer_init_def and_then_def Let_def split: if_splits sum.splits)

lemma S3Writer_init_no_kms_key_arn:
  assumes "S3Writer_init w filename s3_only = Inr self"
  shows "\<not> hasattr self ''kms_key_arn''"
proof -
  have "dom self \<subseteq> dom [''filename'' \<mapsto> PStr filename] \<union>
           {''s3_only'', ''access_key_id'', ''bucket'', ''secret_access_key'', ''kms_key_id''}"
    using assms unfolding S3Writer_init_def by (rule S3Initializer_init_attrs)
  then have "''kms_key_arn'' \<notin> dom self" by auto
  then show ?thesis by (auto simp: hasattr_def)
qed

lemma S3Writer_exit_extra_args:
  assumes "\<not> hasattr self ''kms_key_arn''" and "S3Writer_exit w self filename = Inr w'"
  shows "world_calls w' = world_calls w \<or>
         (\<exists>bucket. world_calls w' = world_calls w @ [UploadFile filename bucket filename None])"
  using assms
  by (auto simp: S3Writer_exit_def upload_file_def and_then_def
      split: if_splits sum.splits option.splits pyval.splits)

lemma aws_cfg_kms_key_id_eq_bucket:
  assumes "world_vcap w = None" and "isfile (world_files w) ''aws.cfg''"
    and "S3Initializer_init w s3_only self0 = Inr self"
  shows "self ''kms_key_id'' = self ''bucket''"
proof -
  have same: "\<And>v. get_config_value (world_files w) ''bucket'' (Some ''aws.cfg'') False = Inr v \<Longrightarrow>
      get_config_value (world_files w) ''bucket'' (Some ''aws.cfg'') True = Inr v"
    by (auto simp: get_config_value_def and_then_def split: sum.splits option.splits)
  show ?thesis
    using assms same
    by (auto simp: S3Initializer_init_def and_then_def Let_def split: sum.splits)
qed

subsection \<open>The totals of \<open>get_total_from_csv\<close>\<close>

text \<open>
  The loop adds what it should: for a spec without \<open>*\<close> the numbers of that column, and for
  a spec \<open>a*b\<close> the products of the two columns, in the order of the records and starting
  from \<open>0.0\<close>. In local-only mode the whole function returns the total of a single column.
  But the function ends the process whenever the spec as a whole is not a column of the header,
  so the loop is reached with a spec \<open>a*b\<close> only when the header has a column with the
  name \<open>a*b\<close> as well.
\<close>

lemma dom_fold_index:
  "dom (fold (\<lambda>(num, column_name) m. m(column_name \<mapsto> num)) xs m) = dom m \<union> snd ` set xs"
  by (induction xs arbitrary: m) (auto split: prod.splits)

lemma dom_index_columns: "dom (index_columns names) = set names"
proof -
  have "snd ` set (enumerate 0 names) = set (map snd (enumerate 0 names))"
    by (simp only: set_map)
  then show ?thesis
    by (simp add: index_columns_def dom_fold_index)
qed

lemma column_field:
  assumes "column_index rd name = Some i" and "field_float ops i line = Some x"
  shows "and_then (column (next_record rd line) name) (to_float ops) = Inr x"
  using assms
  by (auto simp: column_def next_record_def dict_get_def py_index_def and_then_def to_float_def
      field_float_def Let_def split: if_splits)

lemma record_term_single:
  assumes "CHR ''*'' \<notin> set key_column" and "column_index rd key_column = Some i"
    and "field_float ops i line = Some x"
  shows "record_term ops (next_record rd line) key_column = Inr x"
  using assms(1) column_field [OF assms(2,3)] by (simp add: record_term_def)

lemma total_loop_single:
  assumes "CHR ''*'' \<notin> set key_column" and "column_index rd key_column = Some i"
    and "list_all (\<lambda>l. field_float ops i l \<noteq> None) ls"
  shows "total_loop ops rd key_column t ls =
           Inr (fold (\<lambda>l s. float_add ops s (the (field_float ops i l))) ls t)"
  using assms(2,3)
proof (induction ls arbitrary: rd t)
  case Nil
  then show ?case by simp
next
  case (Cons l ls)
  then obtain x where x: "field_float ops i l = Some x" by auto
  have ci: "column_index (next_record rd l) key_column = Some i"
    using Cons.prems(1) by (simp add: next_record_def)
  have "list_all (\<lambda>l. field_float ops i l \<noteq> None) ls" using Cons.prems(2) by simp
  from Cons.IH [OF ci this] show ?case
    using record_term_single [OF assms(1) Cons.prems(1) x] x by (simp add: and_then_def)
qed

lemma record_term_product:
  assumes "CHR ''*'' \<in> set key_column" and "split_on CHR ''*'' key_column = a # b # tl2"
    and "column_index rd a = Some i" and "column_index rd b = Some j"
    and "field_float ops i line = Some x" and "field_float ops j line = Some y"
  shows "record_term ops (next_record rd line) key_column = Inr (float_mul ops x y)"
proof -
  have a: "and_then (column (next_record rd line) a) (to_float ops) = Inr x"
    using assms(3,5) by (rule column_field)
  have b: "and_then (column (next_record rd line) b) (to_float ops) = Inr y"
    using assms(4,6) by (rule column_field)
  show ?thesis
    using assms(1,2) a b
    by (auto simp: record_term_def py_index_def and_then_def split: sum.splits)
qed

lemma total_loop_product:
  assumes "CHR ''*'' \<in> set key_column" and "split_on CHR ''*'' key_column = a # b # tl2"
    and "column_index rd a = Some i" and "column_index rd b = Some j"
    and "list_all (\<lambda>l. field_float ops i l \<noteq> None \<and> field_float ops j l \<noteq> None) ls"
  shows "total_loop ops rd key_column t ls =
           Inr (fold (\<lambda>l s. float_add ops s
                  (float_mul ops (the (field_float ops i l)) (the (field_float ops j l)))) ls t)"
  using assms(3-5)
proof (induction ls arbitrary: rd t)
  case Nil
  then show ?case by simp
next
  case (Cons l ls)
  then obtain x y where xy: "field_float ops i l = Some x" "field_float ops j l = Some y"
    by auto
  have ci: "column_index (next_record rd l) a = Some i" "column_index (next_record rd l) b = Some j"
    using Cons.prems(1,2) by (simp_all add: next_record_def)
  have "list_all (\<lambda>l. field_float ops i l \<noteq> None \<and> field_float ops j l \<noteq> None) ls"
    using Cons.prems(3) by simp
  from Cons.IH [OF ci this] show ?case
    using record_term_product [OF assms(1,2) Cons.prems(1,2) xy] xy by (simp add: and_then_def)
qed

lemma local_CsvReader:
  assumes "world_vcap w = None" and "\<not> isfile (world_files w) ''aws.cfg''"
    and "world_files w csv_filename = Some (File content)"
    and "readlines content = hdr # rows"
  shows "and_then (CsvReader_init w csv_filename) (\<lambda>(w', self). CsvReader_enter w' self csv_filename)
         = Inr \<lparr>reader_attrs = [''s3_only'' \<mapsto> PNone, ''filename'' \<mapsto> PStr csv_filename],
                reader_file = rows, header = strip hdr,
                column_names = split_on CHR '','' (strip hdr),
                column_index = index_columns (split_on CHR '','' (strip hdr)),
                words = None\<rparr>"
  using assms
  by (simp add: CsvReader_init_def S3Initializer_init_def CsvReader_enter_def and_then_def
      hasattr_def read_text_def Let_def)

lemma get_total_single_column:
  assumes "world_vcap w = None" and "\<not> isfile (world_files w) ''aws.cfg''"
    and "world_files w csv_filename = Some (File content)"
    and "readlines content = hdr # rows"
    and "CHR ''*'' \<notin> set key_column"
    and "index_columns (split_on CHR '','' (strip hdr)) key_column = Some i"
    and "list_all (\<lambda>l. field_float ops i l \<noteq> None) rows"
  shows "get_total_from_csv ops w csv_filename key_column =
           Inr (fold (\<lambda>l s. float_add ops s (the (field_float ops i l))) rows (float_zero ops))"
proof -
  let ?rd = "\<lparr>reader_attrs = [''s3_only'' \<mapsto> PNone, ''filename'' \<mapsto> PStr csv_filename],
                reader_file = rows, header = strip hdr,
                column_names = split_on CHR '','' (strip hdr),
                column_index = index_columns (split_on CHR '','' (strip hdr)),
                words = None\<rparr>"
  have ci: "column_index ?rd key_column = Some i" using assms(6) by simp
  have "get_total_from_csv ops w csv_filename key_column =
          and_then (and_then (CsvReader_init w csv_filename)
                      (\<lambda>(w', self). CsvReader_enter w' self csv_filename))
            (\<lambda>csv_reader. if \<not> column_present csv_reader key_column then Inl (SystemExit None)
               else total_loop ops csv_reader key_column (float_zero ops) (reader_file csv_reader))"
    by (simp add: get_total_from_csv_def and_then_def split: sum.splits prod.splits)
  also have "\<dots> = total_loop ops ?rd key_column (float_zero ops) rows"
    using assms(6)
    by (subst local_CsvReader [OF assms(1-4)]) (simp add: and_then_def column_present_def)
  finally show ?thesis
    by (simp add: total_loop_single [OF assms(5) ci assms(7)])
qed

lemma get_total_spec_not_a_column:
  assumes "world_vcap w = None" and "\<not> isfile (world_files w) ''aws.cfg''"
    and "world_files w csv_filename = Some (File content)"
    and "readlines content = hdr # rows"
    and "key_column \<notin> set (split_on CHR '','' (strip hdr))"
  shows "get_total_from_csv ops w csv_filename key_column = Inl (SystemExit None)"
proof -
  have "index_columns (split_on CHR '','' (strip hdr)) key_column = None"
    using assms(5) dom_index_columns [of "split_on CHR '','' (strip hdr)"] by blast
  moreover have "get_total_from_csv ops w csv_filename key_column =
          and_then (and_then (CsvReader_init w csv_filename)
                      (\<lambda>(w', self). CsvReader_enter w' self csv_filename))
            (\<lambda>csv_reader. if \<not> column_present csv_reader key_column then Inl (SystemExit None)
               else total_loop ops csv_reader key_column (float_zero ops) (reader_file csv_reader))"
    by (simp add: get_total_from_csv_def and_then_def split: sum.splits prod.splits)
  ultimately show ?thesis
    by (simp only: local_CsvReader [OF assms(1-4)]) (simp add: and_then_def column_present_def)
qed

lemma single_column_example:
  assumes "float_of_str ops ''1.5'' = Some a" and "float_of_str ops ''2.5'' = Some b"
  shows "get_total_from_csv ops csv_world ''u.csv'' ''a'' =
           Inr (float_add ops (float_add ops (float_zero ops) a) b)"
proof -
  have 1: "readlines ''a\<newline>1.5\<newline>2.5\<newline>'' = [''a\<newline>'', ''1.5\<newline>'', ''2.5\<newline>'']"
    by simp
  have 2: "strip ''a\<newline>'' = ''a''" "strip ''1.5\<newline>'' = ''1.5''" "strip ''2.5\<newline>'' = ''2.5''"
    by (simp_all add: strip_def lstrip_def rstrip_def whitespace_def)
  have 3: "index_columns (split_on CHR '','' (strip ''a\<newline>'')) ''a'' = Some 0"
    by (simp add: 2 index_columns_def enumerate_eq_zip)
  have 4: "list_all (\<lambda>l. field_float ops 0 l \<noteq> None) [''1.5\<newline>'', ''2.5\<newline>'']"
    using assms by (simp add: field_float_def 2)
  have "get_total_from_csv ops csv_world ''u.csv'' ''a'' =
          Inr (fold (\<lambda>l s. float_add ops s (the (field_float ops 0 l)))
                 [''1.5\<newline>'', ''2.5\<newline>''] (float_zero ops))"
    by (rule get_total_single_column [OF _ _ _ 1 _ 3 4])
       (simp_all add: csv_world_def isfile_def)
  then show ?thesis using assms by (simp add: field_float_def 2)
qed

end
